theory Spec2Isabelle
  imports Main
begin

section \<open>Node definitions of the Inbox Management Agent\<close>

text \<open>
  The source file \<^verbatim>\<open>examples/templates/inbox_management/nodes/__init__.py\<close> declares four
  \<^verbatim>\<open>NodeSpec\<close> values. The class itself lives in \<^verbatim>\<open>framework.graph\<close>; the record below has
  the keyword arguments the four constructor calls pass, apart from \<^verbatim>\<open>system_prompt\<close>:
  the prompt is instruction text for the decision-maker, and the steps it prescribes are
  modelled further down as functions, one per node. The field \<^verbatim>\<open>id\<close> is written
  \<open>id'\<close>, since \<open>id\<close> is the identity function of HOL.
\<close>

type_synonym key = string
type_synonym tool_id = string

record NodeSpec =
  id' :: string
  name :: string
  description :: string
  node_type :: string
  client_facing :: bool
  input_keys :: "key list"
  output_keys :: "key list"
  tools :: "tool_id list"

definition intake_node :: NodeSpec where
  "intake_node = \<lparr>
     id' = ''intake'',
     name = ''Intake'',
     description = ''Receive and validate input parameters: rules and max_emails. '' @
                   ''Present the interpreted rules back to the user for confirmation.'',
     node_type = ''event_loop'',
     client_facing = True,
     input_keys = [''rules'', ''max_emails''],
     output_keys = [''rules'', ''max_emails''],
     tools = [] \<rparr>"

definition fetch_emails_node :: NodeSpec where
  "fetch_emails_node = \<lparr>
     id' = ''fetch-emails'',
     name = ''Fetch Emails'',
     description = ''Fetch emails from the Gmail inbox up to the configured batch limit. '' @
                   ''Calls bulk_fetch_emails tool, which fetches via Gmail API and writes '' @
                   ''compact JSONL to session data_dir.'',
     node_type = ''event_loop'',
     client_facing = False,
     input_keys = [''rules'', ''max_emails''],
     output_keys = [''emails''],
     tools = [''bulk_fetch_emails''] \<rparr>"

definition classify_and_act_node :: NodeSpec where
  "classify_and_act_node = \<lparr>
     id' = ''classify-and-act'',
     name = ''Classify and Act'',
     description = ''Apply the user's rules to each email and execute '' @
                   ''the appropriate Gmail actions.'',
     node_type = ''event_loop'',
     client_facing = False,
     input_keys = [''rules'', ''emails''],
     output_keys = [''actions_taken''],
     tools = [''gmail_trash_message'', ''gmail_modify_message'',
              ''gmail_batch_modify_messages'', ''load_data'', ''append_data''] \<rparr>"

definition report_node :: NodeSpec where
  "report_node = \<lparr>
     id' = ''report'',
     name = ''Report'',
     description = ''Generate a summary report of all actions taken on the emails.'',
     node_type = ''event_loop'',
     client_facing = False,
     input_keys = [''actions_taken''],
     output_keys = [''summary_report''],
     tools = [''load_data''] \<rparr>"

text \<open>
  The nodes in the order the file numbers them (Node 1 to Node 4) and exports them in
  \<^verbatim>\<open>__all__\<close>: the order in which the pipeline runs them.
\<close>

definition pipeline :: "NodeSpec list" where
  "pipeline = [intake_node, fetch_emails_node, classify_and_act_node, report_node]"

text \<open>
  Modelled from the spec: the seed inputs of a run (section 6, "Seed inputs: rules,
  max_emails"). The entry point that supplies them is not in this file; the Intake node's
  comment ("Receives user rules and max_emails") and its \<^verbatim>\<open>input_keys\<close> name the same two
  keys.
\<close>

definition seed_keys :: "key list" where
  "seed_keys = [''rules'', ''max_emails'']"

subsection \<open>Key flow through the pipeline\<close>

text \<open>
  \<open>inputs_available avail ns\<close>: running the nodes \<open>ns\<close> in order from a store that holds
  the keys \<open>avail\<close>, every node finds each of its \<^verbatim>\<open>input_keys\<close> in the store when it
  starts; a node that completes adds its \<^verbatim>\<open>output_keys\<close>.
\<close>

fun inputs_available :: "key list \<Rightarrow> NodeSpec list \<Rightarrow> bool" where
  "inputs_available avail [] = True"
| "inputs_available avail (n # ns) =
     (list_all (\<lambda>k. k \<in> set avail) (input_keys n) \<and>
      inputs_available (avail @ output_keys n) ns)"

text \<open>
  \<open>fresh_outputs existing ns\<close>: running the nodes \<open>ns\<close> in order from a store that holds
  the keys \<open>existing\<close>, no node declares an output key twice or one that the store
  already holds, so that every key is written at most once.
\<close>

fun fresh_outputs :: "key list \<Rightarrow> NodeSpec list \<Rightarrow> bool" where
  "fresh_outputs existing [] = True"
| "fresh_outputs existing (n # ns) =
     (distinct (output_keys n) \<and>
      list_all (\<lambda>k. k \<notin> set existing) (output_keys n) \<and>
      fresh_outputs (existing @ output_keys n) ns)"

subsection \<open>Tool whitelists\<close>

text \<open>The ids of the nodes whose \<^verbatim>\<open>tools\<close> list holds the tool \<open>t\<close>, in pipeline order.\<close>

definition nodes_with_tool :: "tool_id \<Rightarrow> string list" where
  "nodes_with_tool t = map id' (filter (\<lambda>n. t \<in> set (tools n)) pipeline)"

text \<open>Every tool id some node of the pipeline may call, each once.\<close>

definition all_tools :: "tool_id list" where
  "all_tools = remdups (concat (map tools pipeline))"

text \<open>The tool ids that stand in the whitelist of more than one node.\<close>

definition shared_tools :: "tool_id list" where
  "shared_tools = filter (\<lambda>t. 1 < length (nodes_with_tool t)) all_tools"

text \<open>
  Modelled from the spec: which tools have an effect outside the run's State Store. The
  tool implementations are not in this file. Section 6 of the spec calls the Gmail tools
  side-effecting, says the bulk fetch tool writes a Paged Record File, and section 4.4
  gives \<^verbatim>\<open>append\<close> as the operation that grows a file, while \<^verbatim>\<open>load\<close> is "a pure,
  repeatable read (no mutation)".
\<close>

definition side_effecting :: "tool_id \<Rightarrow> bool" where
  "side_effecting t =
     (t \<in> set [''bulk_fetch_emails'', ''gmail_trash_message'', ''gmail_modify_message'',
               ''gmail_batch_modify_messages'', ''append_data''])"

section \<open>Tool Gateway\<close>

text \<open>
  Modelled from the spec: the error taxonomy of section 7 and the Tool Gateway of section
  4.3, \<^verbatim>\<open>invoke(node, tool_id, args)\<close>. The engine is not in this file. The gateway
  "rejects calls where tool_id is not in node.tools" with \<^verbatim>\<open>ToolNotPermittedError\<close>,
  "never executes" such a call, and hands a permitted call to the external tool
  implementation, whose failure it propagates as \<^verbatim>\<open>ToolExecutionError\<close>. The
  implementation \<open>impl\<close> is a parameter: it takes the world outside the run (mailbox and
  files) to a result, or to no result when it fails, and to the world after the call.
\<close>

datatype error =
    MissingInputError key
  | IncompleteOutputError key
  | DuplicateOutputError key
  | ToolNotPermittedError
  | ToolExecutionError

definition invoke ::
  "(tool_id \<Rightarrow> 'a \<Rightarrow> 'w \<Rightarrow> 'r option \<times> 'w) \<Rightarrow> NodeSpec \<Rightarrow> tool_id \<Rightarrow> 'a \<Rightarrow> 'w
     \<Rightarrow> (error + 'r) \<times> 'w" where
  "invoke impl node tool args w =
     (if tool \<in> set (tools node) then
        (case impl tool args w of
           (None, w') \<Rightarrow> (Inl ToolExecutionError, w')
         | (Some r, w') \<Rightarrow> (Inr r, w'))
      else (Inl ToolNotPermittedError, w))"

section \<open>What the prompts prescribe\<close>

text \<open>
  Each \<^verbatim>\<open>system_prompt\<close> lists steps for the decision-maker. They are modelled as
  functions from what the node is given to the trace of effects the steps produce: tool
  calls, messages to the user, and \<^verbatim>\<open>set_output\<close> calls, in order.

  The tool calls, with the parameters the prompts give them:
  \<^item> \<^verbatim>\<open>bulk_fetch_emails\<close> "with max_emails set to that value";
  \<^item> \<^verbatim>\<open>load_data(filename, limit, offset)\<close>, called as \<^verbatim>\<open>load_data(filename=...)\<close> and
    \<^verbatim>\<open>load_data(filename=..., offset=...)\<close>: limit and offset are optional;
  \<^item> \<^verbatim>\<open>append_data(filename, data)\<close>, the data a JSON object, here its fields in order;
  \<^item> \<^verbatim>\<open>gmail_batch_modify_messages(message_ids, add_labels, remove_labels)\<close>;
  \<^item> \<^verbatim>\<open>gmail_modify_message(message_id, add_labels, remove_labels)\<close>;
  \<^item> \<^verbatim>\<open>gmail_trash_message(message_id)\<close>.
\<close>

type_synonym json_object = "(string \<times> string) list"

datatype tool_call =
    bulk_fetch_emails string
  | load_data string "nat option" "nat option"
  | append_data string json_object
  | gmail_batch_modify_messages "string list" "string list" "string list"
  | gmail_modify_message string "string list" "string list"
  | gmail_trash_message string

fun tool_name :: "tool_call \<Rightarrow> tool_id" where
  "tool_name (bulk_fetch_emails m) = ''bulk_fetch_emails''"
| "tool_name (load_data f l off) = ''load_data''"
| "tool_name (append_data f d) = ''append_data''"
| "tool_name (gmail_batch_modify_messages ids a r) = ''gmail_batch_modify_messages''"
| "tool_name (gmail_modify_message i a r) = ''gmail_modify_message''"
| "tool_name (gmail_trash_message i) = ''gmail_trash_message''"

datatype effect =
    tool tool_call
  | send_message string
  | set_output key string

fun tool_calls :: "effect list \<Rightarrow> tool_call list" where
  "tool_calls [] = []"
| "tool_calls (tool c # es) = c # tool_calls es"
| "tool_calls (e # es) = tool_calls es"

fun outputs :: "effect list \<Rightarrow> (key \<times> string) list" where
  "outputs [] = []"
| "outputs (set_output k v # es) = (k, v) # outputs es"
| "outputs (e # es) = outputs es"

text \<open>
  The file a call reads, the file and record a call appends, and the message ids a call
  moves to the trash or gives other labels, as the prompt describes the tools:
  \<^verbatim>\<open>load_data\<close> "Read emails from a local file", \<^verbatim>\<open>append_data\<close> "Append a line to a
  file", \<^verbatim>\<open>gmail_trash_message(message_id)\<close> "Move a message to trash", and the two
  modify tools "Modify Gmail labels in batch" and "Modify a single message's labels".
\<close>

fun file_read :: "tool_call \<Rightarrow> string option" where
  "file_read (load_data f l off) = Some f"
| "file_read c = None"

fun appended :: "tool_call \<Rightarrow> (string \<times> json_object) option" where
  "appended (append_data f d) = Some (f, d)"
| "appended c = None"

fun trashed_by :: "tool_call \<Rightarrow> string list" where
  "trashed_by (gmail_trash_message i) = [i]"
| "trashed_by c = []"

definition trashed :: "tool_call list \<Rightarrow> string list" where
  "trashed cs = concat (map trashed_by cs)"

fun relabelled_by :: "tool_call \<Rightarrow> string list" where
  "relabelled_by (gmail_batch_modify_messages ids a r) = ids"
| "relabelled_by (gmail_modify_message i a r) = [i]"
| "relabelled_by c = []"

subsection \<open>Reading a file page by page\<close>

text \<open>
  "If has_more=true, load more pages with load_data(filename=..., offset=...) until all
  emails are loaded." A node gets the first page from \<^verbatim>\<open>load_data(filename=...)\<close>, and
  the pages after it (\<open>ps\<close>, those the tool returns while \<^verbatim>\<open>has_more\<close> is true) with one
  call each, at the offset of the records read so far.
\<close>

fun more_loads :: "string \<Rightarrow> nat \<Rightarrow> 'a list list \<Rightarrow> tool_call list" where
  "more_loads f off [] = []"
| "more_loads f off (p # ps) = load_data f None (Some off) # more_loads f (off + length p) ps"

subsection \<open>Node 1: Intake\<close>

text \<open>
  Python's \<^verbatim>\<open>str\<close> of a natural number: its decimal digits. The prompt asks for "the
  confirmed max_emails as a string number, e.g. "100"".
\<close>

definition digit_char :: "nat \<Rightarrow> char" where
  "digit_char d = ''0123456789'' ! d"

fun string_number :: "nat \<Rightarrow> string" where
  "string_number n =
     (if n < 10 then [digit_char n]
      else string_number (n div 10) @ [digit_char (n mod 10)])"

declare string_number.simps [simp del]

text \<open>A string-encoded integer: decimal digits, at least one; and the number it encodes.\<close>

definition is_number_string :: "string \<Rightarrow> bool" where
  "is_number_string s = (s \<noteq> [] \<and> list_all (\<lambda>c. c \<in> set ''0123456789'') s)"

definition digit_value :: "char \<Rightarrow> nat" where
  "digit_value c = of_char c - 48"

definition number_of_string :: "string \<Rightarrow> nat" where
  "number_of_string s = foldl (\<lambda>acc c. 10 * acc + digit_value c) 0 s"

text \<open>
  Step 1: present a summary of the rules to the user and "confirm the batch size
  (max_emails). If max_emails is not provided, default to 100", then ask the user to
  confirm (text only, no tool calls). Step 2, after the user confirms: set the outputs
  \<^verbatim>\<open>rules\<close> and \<^verbatim>\<open>max_emails\<close>. The arguments: the summary shown, the rules text, the
  batch size if one was provided, and whether the user confirmed.
\<close>

definition batch_size :: "nat option \<Rightarrow> nat" where
  "batch_size max_emails = (case max_emails of None \<Rightarrow> 100 | Some n \<Rightarrow> n)"

definition intake :: "string \<Rightarrow> string \<Rightarrow> nat option \<Rightarrow> bool \<Rightarrow> effect list" where
  "intake summary rules max_emails confirmed =
     send_message summary #
     (if confirmed then
        [set_output ''rules'' rules,
         set_output ''max_emails'' (string_number (batch_size max_emails))]
      else [])"

subsection \<open>Node 2: Fetch Emails\<close>

text \<open>
  "1. Read the max_emails value from the input context. 2. Call bulk_fetch_emails with
  max_emails set to that value. 3. The tool returns a JSON object with a filename key.
  4. Call set_output(emails, the filename value from the tool result)." The context
  \<open>ctx\<close> holds the node's input keys; \<open>bulk\<close> gives the filename the tool returns. A
  context without the key is the executor's \<^verbatim>\<open>MissingInputError\<close> (spec, section 4.1).
\<close>

definition fetch_emails :: "(string \<Rightarrow> string) \<Rightarrow> (key \<rightharpoonup> string) \<Rightarrow> error + effect list" where
  "fetch_emails bulk ctx =
     (case ctx ''max_emails'' of
        None \<Rightarrow> Inl (MissingInputError ''max_emails'')
      | Some m \<Rightarrow> Inr [tool (bulk_fetch_emails m), set_output ''emails'' (bulk m)])"

subsection \<open>Node 3: Classify and Act\<close>

text \<open>
  An email line of the fetched file: "Each line has: id, subject, from, to, date, snippet,
  labels." The fields \<^verbatim>\<open>id\<close>, \<^verbatim>\<open>from\<close> and \<^verbatim>\<open>to\<close> carry the suffix \<open>_e\<close>.
\<close>

record email =
  id_e :: string
  subject :: string
  from_e :: string
  to_e :: string
  date :: string
  snippet :: string
  labels :: "string list"

text \<open>
  The Gmail actions of the label reference: a change of labels (\<^verbatim>\<open>add_labels\<close>,
  \<^verbatim>\<open>remove_labels\<close>), or "TRASH - use gmail_trash_message(message_id) per email".
\<close>

datatype gmail_action =
    Trash
  | Modify "string list" "string list"

text \<open>
  Step 3 for one group of emails with the same action. Labels: one
  \<^verbatim>\<open>gmail_batch_modify_messages\<close> call for the group ("ALWAYS prefer this"). Trash:
  "No batch version; call per email".
\<close>

fun gmail_calls :: "gmail_action \<Rightarrow> string list \<Rightarrow> tool_call list" where
  "gmail_calls Trash ids = map gmail_trash_message ids"
| "gmail_calls (Modify add_labels remove_labels) ids =
     [gmail_batch_modify_messages ids add_labels remove_labels]"

text \<open>
  The record of one action:
  \<^verbatim>\<open>append_data(filename="actions.jsonl", data=<JSON of {email_id, subject, from, action}>)\<close>.
\<close>

definition action_record :: "email \<Rightarrow> string \<Rightarrow> json_object" where
  "action_record e action =
     [(''email_id'', id_e e), (''subject'', subject e), (''from'', from_e e),
      (''action'', action)]"

text \<open>
  Step 2: "Classify each email, group by action"; a blanket rule is the case of one group.
  \<open>decide\<close> is the decision-maker's reading of the rules: the action for an email, if
  any rule matches it. Every action chosen for some email has one group.
\<close>

definition action_groups ::
  "(email \<Rightarrow> gmail_action option) \<Rightarrow> email list \<Rightarrow> (gmail_action \<times> email list) list" where
  "action_groups decide es =
     map (\<lambda>a. (a, filter (\<lambda>e. decide e = Some a) es)) (remdups (List.map_filter decide es))"

text \<open>
  The node. Step 1: the first tool call is \<^verbatim>\<open>load_data\<close> on the \<^verbatim>\<open>emails\<close> file; "If the
  result is empty, call set_output("actions_taken", "no emails to process") and stop";
  further pages are loaded while there are more. Steps 2 and 3: the Gmail calls of every
  group, "Then record each action". Step 4: "After ALL actions are executed, call
  set_output("actions_taken", "actions.jsonl")". \<open>describe\<close> is the text the
  decision-maker records for an action.
\<close>

definition classify_and_act ::
  "(email \<Rightarrow> gmail_action option) \<Rightarrow> (gmail_action \<Rightarrow> string) \<Rightarrow> string
     \<Rightarrow> email list \<Rightarrow> email list list \<Rightarrow> effect list" where
  "classify_and_act decide describe emails first_page more_pages =
     (if first_page = [] then
        [tool (load_data emails None None),
         set_output ''actions_taken'' ''no emails to process'']
      else
        (let groups = action_groups decide (first_page @ concat more_pages) in
           tool (load_data emails None None) #
           map tool (more_loads emails (length first_page) more_pages) @
           map tool (concat (map (\<lambda>(a, g). gmail_calls a (map id_e g)) groups)) @
           map tool (concat (map (\<lambda>(a, g).
             map (\<lambda>e. append_data ''actions.jsonl'' (action_record e (describe a))) g) groups)) @
           [set_output ''actions_taken'' ''actions.jsonl'']))"

subsection \<open>Node 4: Report\<close>

text \<open>
  What the report says: that no emails were processed, or a summary of the action records
  read. \<open>render\<close> is the decision-maker's formatting of it as text.
\<close>

datatype report_content =
    no_emails_processed
  | summary_of "json_object list"

text \<open>
  "The actions_taken value from context is a filename. If it equals "[]", there are no
  actions - generate a report stating no emails were processed and call set_output.
  Otherwise, call load_data(filename=the actions_taken value) to read the action records.
  If load_data returns has_more=true, call it again with the next offset. Read ALL
  records before generating the report." Then \<^verbatim>\<open>set_output("summary_report", ...)\<close>.
\<close>

definition report ::
  "(report_content \<Rightarrow> string) \<Rightarrow> string \<Rightarrow> json_object list \<Rightarrow> json_object list list
     \<Rightarrow> effect list" where
  "report render actions_taken first_page more_pages =
     (if actions_taken = ''[]'' then
        [set_output ''summary_report'' (render no_emails_processed)]
      else
        tool (load_data actions_taken None None) #
        map tool (more_loads actions_taken (length first_page) more_pages) @
        [set_output ''summary_report'' (render (summary_of (first_page @ concat more_pages)))])"

section \<open>Helper lemmas\<close>

lemmas node_defs =
  intake_node_def fetch_emails_node_def classify_and_act_node_def report_node_def

lemma pipeline_ids:
  "map id' pipeline = [''intake'', ''fetch-emails'', ''classify-and-act'', ''report'']"
  by (simp add: pipeline_def node_defs)

subsection \<open>Traces\<close>

lemma tool_calls_append: "tool_calls (xs @ ys) = tool_calls xs @ tool_calls ys"
  by (induction xs rule: tool_calls.induct) simp_all

lemma tool_calls_map_tool: "tool_calls (map tool cs) = cs"
  by (induction cs) simp_all

lemma outputs_append: "outputs (xs @ ys) = outputs xs @ outputs ys"
  by (induction xs rule: outputs.induct) simp_all

lemma outputs_map_tool: "outputs (map tool cs) = []"
  by (induction cs) simp_all

lemma more_loads_read:
  "list_all (\<lambda>c. tool_name c = ''load_data'' \<and> file_read c = Some f) (more_loads f off ps)"
  by (induction ps arbitrary: off) simp_all

lemma map_filter_append:
  "List.map_filter f (xs @ ys) = List.map_filter f xs @ List.map_filter f ys"
  by (simp add: List.map_filter_def)

lemma more_loads_appended: "List.map_filter appended (more_loads f off ps) = []"
  by (induction ps arbitrary: off) (simp_all add: map_filter_simps)

lemma gmail_calls_appended: "List.map_filter appended (gmail_calls a ids) = []"
  by (cases a) (simp_all add: List.map_filter_def filter_empty_conv)

lemma gmail_groups_appended:
  "List.map_filter appended (concat (map (\<lambda>(a, g). gmail_calls a (map id_e g)) groups)) = []"
  by (induction groups) (auto simp: map_filter_append gmail_calls_appended map_filter_simps)

lemma records_fields:
  "list_all (\<lambda>x. fst x = ''actions.jsonl'' \<and>
                 map fst (snd x) = [''email_id'', ''subject'', ''from'', ''action''])
     (List.map_filter appended (concat (map (\<lambda>(a, g).
        map (\<lambda>e. append_data ''actions.jsonl'' (action_record e (describe a))) g) groups)))"
  by (induction groups)
    (auto simp: map_filter_simps map_filter_append List.map_filter_def list_all_iff
      action_record_def)

subsection \<open>Trash calls\<close>

lemma trashed_by_le_one: "length (trashed_by c) \<le> 1"
  by (cases c) simp_all

lemma trashed_by_only: "(trashed_by c = []) = (tool_name c \<noteq> ''gmail_trash_message'')"
  by (cases c) simp_all

lemma length_trashed:
  "length (trashed cs) = length (filter (\<lambda>c. tool_name c = ''gmail_trash_message'') cs)"
proof (induction cs)
  case Nil
  show ?case by (simp add: trashed_def)
next
  case (Cons c cs)
  then show ?case by (cases c) (simp_all add: trashed_def)
qed

lemma distinct_subset_length:
  assumes "distinct xs" and "set xs \<subseteq> set ys"
  shows "length xs \<le> length ys"
proof -
  have "length xs = card (set xs)"
    using assms(1) by (simp add: distinct_card)
  also have "\<dots> \<le> card (set ys)"
    using assms(2) by (simp add: card_mono)
  also have "\<dots> \<le> length ys"
    by (rule card_length)
  finally show ?thesis .
qed

lemma trashed_gmail_calls_Trash: "trashed (gmail_calls Trash ids) = ids"
  by (induction ids) (simp_all add: trashed_def)

text \<open>
  A blanket rule that trashes every email: the node's trace holds one
  \<^verbatim>\<open>gmail_trash_message\<close> call per loaded email, in the order of the file.
\<close>

lemma tool_calls_map_tool_fun: "tool_calls (map (\<lambda>x. tool (f x)) xs) = map f xs"
  by (induction xs) simp_all

lemma remdups_replicate_Suc: "remdups (replicate (Suc n) a) = [a]"
  by (induction n) simp_all

lemma action_groups_blanket:
  assumes "es \<noteq> []"
  shows "action_groups (\<lambda>e. Some a) es = [(a, es)]"
proof -
  have "List.map_filter (\<lambda>e. Some a) es = replicate (length es) a"
    by (induction es) (simp_all add: map_filter_simps)
  moreover obtain n where "length es = Suc n"
    using assms by (cases es) simp_all
  ultimately have "remdups (List.map_filter (\<lambda>e. Some a) es) = [a]"
    by (simp only: remdups_replicate_Suc)
  then show ?thesis
    by (simp add: action_groups_def)
qed

lemma more_loads_no_trash:
  "filter (\<lambda>c. tool_name c = ''gmail_trash_message'') (more_loads f off ps) = []"
  by (induction ps arbitrary: off) simp_all

lemma blanket_trash_trace:
  assumes "first_page \<noteq> []"
  shows "filter (\<lambda>c. tool_name c = ''gmail_trash_message'')
           (tool_calls (classify_and_act (\<lambda>e. Some Trash) describe emails first_page more_pages))
         = map gmail_trash_message (map id_e (first_page @ concat more_pages))"
proof -
  have groups: "action_groups (\<lambda>e. Some Trash) (first_page @ concat more_pages)
      = [(Trash, first_page @ concat more_pages)]"
    using assms by (intro action_groups_blanket) simp
  show ?thesis
    using assms
    by (simp add: classify_and_act_def groups tool_calls_append tool_calls_map_tool
        tool_calls_map_tool_fun more_loads_no_trash filter_map o_def)
qed

subsection \<open>Decimal strings\<close>

lemma digit_char_digit: "d < 10 \<Longrightarrow> digit_char d \<in> set ''0123456789''"
  unfolding digit_char_def by (rule nth_mem) simp

lemma digit_value_digit_char: "d < 10 \<Longrightarrow> digit_value (digit_char d) = d"
proof -
  assume "d < 10"
  then have "d \<in> {0, 1, 2, 3, 4, 5, 6, 7, 8, 9}"
    by auto
  then show ?thesis
    by (auto simp: digit_value_def digit_char_def)
qed

lemma string_number_digits: "is_number_string (string_number n)"
proof (induction n rule: string_number.induct)
  case (1 n)
  show ?case
  proof (cases "n < 10")
    case True
    then show ?thesis
      using digit_char_digit [of n]
      by (simp add: string_number.simps [of n] is_number_string_def)
  next
    case False
    then show ?thesis
      using 1 digit_char_digit [of "n mod 10"]
      by (simp add: string_number.simps [of n] is_number_string_def)
  qed
qed

lemma number_of_string_number: "number_of_string (string_number n) = n"
proof (induction n rule: string_number.induct)
  case (1 n)
  show ?case
  proof (cases "n < 10")
    case True
    then show ?thesis
      by (simp add: string_number.simps [of n] number_of_string_def digit_value_digit_char)
  next
    case False
    then have "number_of_string (string_number (n div 10)) = n div 10"
      using 1 by simp
    then show ?thesis
      using False
      by (simp add: string_number.simps [of n] number_of_string_def digit_value_digit_char)
  qed
qed

section \<open>Properties of the configuration and of the prompts\<close>

text \<open>
  Claim C1. In the pipeline run in order (Intake, Fetch Emails, Classify and Act, Report)
  from a store holding the seed keys \<^verbatim>\<open>rules\<close> and \<^verbatim>\<open>max_emails\<close>, every input key of
  every node is in the store when the node starts: it is a seed key or an output key of
  an earlier node. No node reads a key before it is written.
\<close>

theorem pipeline_inputs_available:
  "inputs_available seed_keys pipeline"
  by (simp add: pipeline_def seed_keys_def node_defs)

text \<open>
  Claim C2, as amended. When \<^verbatim>\<open>load_data\<close> on the emails file returns an empty result,
  the Classify and Act node has made exactly one tool call, that \<^verbatim>\<open>load_data\<close>, and no
  side-effecting call; it sets its one output key \<^verbatim>\<open>actions_taken\<close> and stops. The
  Report node recognizes exactly the marker \<^verbatim>\<open>"[]"\<close>: for that value of
  \<^verbatim>\<open>actions_taken\<close>, and for no other, its whole trace is the one \<^verbatim>\<open>set_output\<close> of a
  report that no emails were processed, with no tool call.
\<close>

theorem empty_load_short_circuit:
  "tool_calls (classify_and_act decide describe emails [] more_pages)
     = [load_data emails None None] \<and>
   filter side_effecting
     (map tool_name (tool_calls (classify_and_act decide describe emails [] more_pages))) = [] \<and>
   map fst (outputs (classify_and_act decide describe emails [] more_pages))
     = [''actions_taken''] \<and>
   report render ''[]'' first_page pages
     = [set_output ''summary_report'' (render no_emails_processed)] \<and>
   (report render v first_page pages = [set_output ''summary_report'' (render no_emails_processed)])
     = (v = ''[]'')"
  by (simp add: classify_and_act_def report_def side_effecting_def)

text \<open>
  The claim as stated fails on an empty \<^verbatim>\<open>emails.jsonl\<close>: the node has made a tool call,
  and the value it sets is not the marker \<^verbatim>\<open>"[]"\<close>.
\<close>

theorem empty_marker_mismatch:
  "tool_calls (classify_and_act (\<lambda>e. None) (\<lambda>a. ''none'') ''emails.jsonl'' [] []) \<noteq> [] \<and>
   outputs (classify_and_act (\<lambda>e. None) (\<lambda>a. ''none'') ''emails.jsonl'' [] [])
     \<noteq> [(''actions_taken'', ''[]'')]"
  by (simp add: classify_and_act_def)

text \<open>
  What the two prompts do together on an empty file: Classify and Act sets
  \<^verbatim>\<open>"no emails to process"\<close>, which Report takes for a filename and loads.
\<close>

lemma report_after_empty_load:
  "outputs (classify_and_act decide describe emails [] more_pages)
     = [(''actions_taken'', ''no emails to process'')] \<and>
   tool_calls (report render ''no emails to process'' [] [])
     = [load_data ''no emails to process'' None None]"
  by (simp add: classify_and_act_def report_def)

text \<open>
  Claim C3, as amended. No node lists an output key twice or an output key of an earlier
  node, and no node after Intake lists a seed key: from Intake's completion on, every
  key is written at most once. The output keys that are seed keys are exactly Intake's,
  \<^verbatim>\<open>rules\<close> and \<^verbatim>\<open>max_emails\<close>, which Intake writes again with the confirmed values.
\<close>

theorem outputs_fresh_after_intake:
  "fresh_outputs [] pipeline \<and>
   fresh_outputs (seed_keys @ output_keys intake_node)
     [fetch_emails_node, classify_and_act_node, report_node] \<and>
   filter (\<lambda>k. k \<in> set seed_keys) (concat (map output_keys pipeline))
     = output_keys intake_node \<and>
   output_keys intake_node = seed_keys"
  by (simp add: pipeline_def seed_keys_def node_defs)

text \<open>
  The claim as stated fails: started from a store with the seed keys, the pipeline writes
  a key the store already holds, Intake's \<^verbatim>\<open>rules\<close>.
\<close>

theorem intake_rewrites_seed_keys:
  "\<not> fresh_outputs seed_keys pipeline \<and>
   ''rules'' \<in> set seed_keys \<and>
   ''rules'' \<in> set (output_keys intake_node)"
  by (simp add: pipeline_def seed_keys_def node_defs)

text \<open>
  Claim C4, as amended. Every action record has exactly the fields \<^verbatim>\<open>email_id\<close>,
  \<^verbatim>\<open>subject\<close>, \<^verbatim>\<open>from\<close>, \<^verbatim>\<open>action\<close>, in this order, and every record the Classify and
  Act node appends goes to the file \<^verbatim>\<open>actions.jsonl\<close> with these fields.
\<close>

theorem action_record_fields:
  "map fst (action_record e action) = [''email_id'', ''subject'', ''from'', ''action''] \<and>
   list_all (\<lambda>x. fst x = ''actions.jsonl'' \<and>
                 map fst (snd x) = [''email_id'', ''subject'', ''from'', ''action''])
     (List.map_filter appended
        (tool_calls (classify_and_act decide describe emails first_page more_pages)))"
  using records_fields [of describe "action_groups decide (first_page @ concat more_pages)"]
  by (simp add: classify_and_act_def action_record_def tool_calls_append tool_calls_map_tool
      map_filter_append map_filter_simps more_loads_appended gmail_groups_appended Let_def)

text \<open>
  The claim as stated fails: the record of a trashed email has no field \<^verbatim>\<open>entity_id\<close>
  and no field \<^verbatim>\<open>sender\<close>.
\<close>

theorem action_record_no_entity_id:
  "map fst (action_record
      \<lparr>id_e = ''m1'', subject = ''Sale'', from_e = ''shop@example.com'',
       to_e = ''me@example.com'', date = ''2024-01-01'', snippet = ''50% off'',
       labels = [''INBOX'']\<rparr> ''trash'')
     \<noteq> [''entity_id'', ''subject'', ''sender'', ''action''] \<and>
   ''entity_id'' \<notin> set (map fst (action_record
      \<lparr>id_e = ''m1'', subject = ''Sale'', from_e = ''shop@example.com'',
       to_e = ''me@example.com'', date = ''2024-01-01'', snippet = ''50% off'',
       labels = [''INBOX'']\<rparr> ''trash'')) \<and>
   ''sender'' \<notin> set (map fst (action_record
      \<lparr>id_e = ''m1'', subject = ''Sale'', from_e = ''shop@example.com'',
       to_e = ''me@example.com'', date = ''2024-01-01'', snippet = ''50% off'',
       labels = [''INBOX'']\<rparr> ''trash''))"
  by (simp add: action_record_def)

text \<open>
  Claim C5. The Report node's only input key is \<^verbatim>\<open>actions_taken\<close>; its whitelist is
  \<^verbatim>\<open>load_data\<close> alone, which is not side-effecting; every tool call of its trace is a
  whitelisted \<^verbatim>\<open>load_data\<close> of the file that \<^verbatim>\<open>actions_taken\<close> names; and the only key
  it sets is its one output key \<^verbatim>\<open>summary_report\<close>.
\<close>

theorem report_reads_only_actions_file:
  "input_keys report_node = [''actions_taken''] \<and>
   tools report_node = [''load_data''] \<and>
   filter side_effecting (tools report_node) = [] \<and>
   output_keys report_node = [''summary_report''] \<and>
   list_all (\<lambda>c. tool_name c \<in> set (tools report_node) \<and> file_read c = Some actions_taken)
     (tool_calls (report render actions_taken first_page more_pages)) \<and>
   map fst (outputs (report render actions_taken first_page more_pages))
     = output_keys report_node"
  using more_loads_read [of actions_taken "length first_page" more_pages]
  by (simp add: report_def report_node_def side_effecting_def tool_calls_append
      tool_calls_map_tool outputs_append outputs_map_tool list_all_iff)

text \<open>
  Claim C6. Exactly one node of the pipeline is client-facing, the Intake node: its flag
  is \<^verbatim>\<open>True\<close>, and the flag of Fetch Emails, Classify and Act and Report is \<^verbatim>\<open>False\<close>.
\<close>

theorem intake_only_client_facing:
  "filter client_facing pipeline = [intake_node] \<and>
   client_facing intake_node \<and>
   \<not> client_facing fetch_emails_node \<and>
   \<not> client_facing classify_and_act_node \<and>
   \<not> client_facing report_node"
  by (simp add: pipeline_def node_defs)

text \<open>
  Claim C7. Trash has no batch form. A tool call moves at most one message to the trash,
  and only a \<^verbatim>\<open>gmail_trash_message\<close> call moves any; so a sequence of calls that
  trashes \<open>n\<close> different emails holds at least \<open>n\<close> such calls, and the node's calls for a
  group to trash are one per email. A change of labels for a group of any size is one
  \<^verbatim>\<open>gmail_batch_modify_messages\<close> call covering all its ids. Both tools are in the
  whitelist of Classify and Act.
\<close>

theorem trash_needs_call_per_email:
  assumes "distinct ids" and "set ids \<subseteq> set (trashed cs)"
  shows "length ids \<le> length (filter (\<lambda>c. tool_name c = ''gmail_trash_message'') cs) \<and>
         length (trashed_by c) \<le> 1 \<and>
         (trashed_by c = []) = (tool_name c \<noteq> ''gmail_trash_message'') \<and>
         length (gmail_calls Trash ids') = length ids' \<and>
         trashed (gmail_calls Trash ids') = ids' \<and>
         length (gmail_calls (Modify add_labels remove_labels) ids') = 1 \<and>
         concat (map relabelled_by (gmail_calls (Modify add_labels remove_labels) ids')) = ids' \<and>
         ''gmail_trash_message'' \<in> set (tools classify_and_act_node) \<and>
         ''gmail_batch_modify_messages'' \<in> set (tools classify_and_act_node)"
proof -
  have "length ids \<le> length (trashed cs)"
    using assms by (rule distinct_subset_length)
  then have calls:
    "length ids \<le> length (filter (\<lambda>c. tool_name c = ''gmail_trash_message'') cs)"
    by (simp add: length_trashed)
  have single: "length (trashed_by c) \<le> 1"
    by (rule trashed_by_le_one)
  have only: "(trashed_by c = []) = (tool_name c \<noteq> ''gmail_trash_message'')"
    by (rule trashed_by_only)
  have per_email: "length (gmail_calls Trash ids') = length ids'"
    by simp
  have covers: "trashed (gmail_calls Trash ids') = ids'"
    by (rule trashed_gmail_calls_Trash)
  have batch: "length (gmail_calls (Modify add_labels remove_labels) ids') = 1"
    by simp
  have batch_covers:
    "concat (map relabelled_by (gmail_calls (Modify add_labels remove_labels) ids')) = ids'"
    by simp
  have listed:
    "''gmail_trash_message'' \<in> set (tools classify_and_act_node)"
    "''gmail_batch_modify_messages'' \<in> set (tools classify_and_act_node)"
    by (simp_all add: classify_and_act_node_def)
  from calls single only per_email covers batch batch_covers listed
  show ?thesis by blast
qed

text \<open>
  The theorem at two emails: a trace that trashes \<^verbatim>\<open>m1\<close> and \<^verbatim>\<open>m2\<close>, with a load
  between them, holds two \<^verbatim>\<open>gmail_trash_message\<close> calls.
\<close>

theorem trash_needs_call_per_email_witness:
  "distinct [''m1'', ''m2''] \<and>
   set [''m1'', ''m2''] \<subseteq>
     set (trashed [gmail_trash_message ''m1'', load_data ''emails.jsonl'' None None,
                   gmail_trash_message ''m2'']) \<and>
   length [''m1'', ''m2''] \<le>
     length (filter (\<lambda>c. tool_name c = ''gmail_trash_message'')
       [gmail_trash_message ''m1'', load_data ''emails.jsonl'' None None,
        gmail_trash_message ''m2''])"
proof -
  have d: "distinct [''m1'', ''m2'']"
    by simp
  have s: "set [''m1'', ''m2''] \<subseteq>
      set (trashed [gmail_trash_message ''m1'', load_data ''emails.jsonl'' None None,
                    gmail_trash_message ''m2''])"
    by (simp add: trashed_def)
  show ?thesis
    using d s trash_needs_call_per_email [OF d s] by simp
qed

text \<open>
  Claim C8. When no \<^verbatim>\<open>max_emails\<close> is provided, the Intake node's confirmed output
  \<^verbatim>\<open>max_emails\<close> is the string \<^verbatim>\<open>"100"\<close>, and that is the value the Fetch Emails node
  passes to \<^verbatim>\<open>bulk_fetch_emails\<close>. Whatever was provided, the \<^verbatim>\<open>max_emails\<close> output is
  a string-encoded integer: a non-empty string of decimal digits that encodes the batch
  size.
\<close>

theorem max_emails_default_100:
  "outputs (intake summary rules None True)
     = [(''rules'', rules), (''max_emails'', ''100'')] \<and>
   fetch_emails bulk (map_of (outputs (intake summary rules None True)))
     = Inr [tool (bulk_fetch_emails ''100''), set_output ''emails'' (bulk ''100'')] \<and>
   list_all is_number_string
     (map snd (filter (\<lambda>kv. fst kv = ''max_emails'')
        (outputs (intake summary rules max_emails confirmed)))) \<and>
   map (\<lambda>kv. number_of_string (snd kv))
     (filter (\<lambda>kv. fst kv = ''max_emails'') (outputs (intake summary rules max_emails True)))
     = [batch_size max_emails]"
proof -
  have s100: "string_number 100 = ''100''"
    by (simp add: string_number.simps digit_char_def)
  show ?thesis
    by (simp add: intake_def batch_size_def fetch_emails_def s100 string_number_digits
        number_of_string_number)
qed

text \<open>
  Claim C9. The Intake node's whitelist is empty, so the gateway answers every tool
  invocation of the node with \<^verbatim>\<open>ToolNotPermittedError\<close> and leaves the world as it was,
  whatever the tool, its arguments and its implementation. The trace the Intake prompt
  prescribes has no tool call, and the keys it sets are among the node's output keys.
\<close>

theorem intake_tools_never_permitted:
  "tools intake_node = [] \<and>
   invoke impl intake_node t args w = (Inl ToolNotPermittedError, w) \<and>
   tool_calls (intake summary rules max_emails confirmed) = [] \<and>
   set (map fst (outputs (intake summary rules max_emails confirmed)))
     \<subseteq> set (output_keys intake_node)"
  by (simp add: invoke_def intake_def intake_node_def)

text \<open>
  Claim C10. Each side-effecting tool id is in the whitelist of exactly one node:
  \<^verbatim>\<open>bulk_fetch_emails\<close> of Fetch Emails; \<^verbatim>\<open>gmail_trash_message\<close>,
  \<^verbatim>\<open>gmail_modify_message\<close>, \<^verbatim>\<open>gmail_batch_modify_messages\<close> and \<^verbatim>\<open>append_data\<close> of
  Classify and Act. The only tool id in two whitelists is the read-only \<^verbatim>\<open>load_data\<close>
  (Classify and Act, Report).
\<close>

theorem tools_partitioned_by_node:
  "nodes_with_tool ''bulk_fetch_emails'' = [''fetch-emails''] \<and>
   nodes_with_tool ''gmail_trash_message'' = [''classify-and-act''] \<and>
   nodes_with_tool ''gmail_modify_message'' = [''classify-and-act''] \<and>
   nodes_with_tool ''gmail_batch_modify_messages'' = [''classify-and-act''] \<and>
   nodes_with_tool ''append_data'' = [''classify-and-act''] \<and>
   nodes_with_tool ''load_data'' = [''classify-and-act'', ''report''] \<and>
   shared_tools = [''load_data''] \<and>
   \<not> side_effecting ''load_data'' \<and>
   filter side_effecting all_tools =
     [''bulk_fetch_emails'', ''gmail_trash_message'', ''gmail_modify_message'',
      ''gmail_batch_modify_messages'', ''append_data''] \<and>
   list_all (\<lambda>t. length (nodes_with_tool t) = 1) (filter side_effecting all_tools)"
  by (simp add: nodes_with_tool_def shared_tools_def all_tools_def side_effecting_def
      pipeline_def node_defs)

end
